theory Spec2Isabelle
  imports Complex_Main
begin

section \<open>The Python extension module of fast-trips (src/fasttrips.cpp)\<close>

text \<open>
  The source file is the binding layer between the Python host and the path-finding
  engine: three module functions, each of which parses its Python arguments, converts
  tables with numpy, and calls one member function of the global \<^verbatim>\<open>fasttrips::PathFinder pathfinder\<close>.

  Conventions of the embedding.
  \<^item> A C \<^verbatim>\<open>int\<close> is a HOL \<open>int\<close>: the file only copies and compares ints. Where the
    file stores a numpy dimension (an \<^verbatim>\<open>npy_intp\<close>) in a C \<^verbatim>\<open>int\<close>, the value is
    narrowed to 32 bits (\<open>npy_intp_to_int\<close>).
  \<^item> A C \<^verbatim>\<open>double\<close> is a value of the type variable \<open>'d\<close>: the file only copies doubles,
    so nothing depends on their arithmetic.
  \<^item> A \<^verbatim>\<open>PyObject*\<close> is a value of the type variable \<open>'obj\<close>. The CPython and numpy
    calls are parameters (record \<open>python\<close>); a call that returns \<^verbatim>\<open>NULL\<close> or \<^verbatim>\<open>0\<close>
    returns \<open>None\<close>.
  \<^item> The class \<^verbatim>\<open>PathFinder\<close> is declared in pathfinder.h, which is not part of the
    sources. The state of the global \<^verbatim>\<open>pathfinder\<close> is a value of the type variable
    \<open>'pf\<close>, and its three methods are parameters (record \<open>engine\<close>).
  \<^item> \<^verbatim>\<open>assert(c)\<close> is checked unless the build defines \<^verbatim>\<open>NDEBUG\<close>, which the file
    itself neither defines nor undefines: the build is the parameter \<open>NDEBUG\<close> of the
    functions that assert. A failed assertion aborts the process, which is the outcome
    \<open>AssertionFailure\<close>.
  \<^item> Every module function returns its outcome together with the state of the global
    \<^verbatim>\<open>pathfinder\<close> it leaves behind. A search may also read and write the rest of the
    process (trace files, the random number generator): that is a value of the type
    variable \<open>'w\<close>, passed to \<^verbatim>\<open>findPath\<close> and returned by it.
  \<^item> Running out of memory is not modelled: \<^verbatim>\<open>PyArray_SimpleNew\<close> and \<^verbatim>\<open>Py_BuildValue\<close>
    succeed.
\<close>

subsection \<open>Data\<close>

datatype error =
    PyException       \<comment> \<open>the function returned \<^verbatim>\<open>NULL\<close>, a Python exception is pending\<close>
  | AssertionFailure  \<comment> \<open>an \<^verbatim>\<open>assert\<close> failed, the process is aborted\<close>

text \<open>
  The result of \<^verbatim>\<open>PyArray_ContiguousFromObject(op, type, 2, 2)\<close>: a C-contiguous array of
  exactly two dimensions; \<open>dims0\<close> and \<open>dims1\<close> are \<^verbatim>\<open>PyArray_DIMS(pyo)[0]\<close> and
  \<^verbatim>\<open>PyArray_DIMS(pyo)[1]\<close>, \<open>data\<close> is the buffer \<^verbatim>\<open>PyArray_DATA(pyo)\<close> in row-major order.
\<close>

record 'a array2d =
  dims0 :: nat
  dims1 :: nat
  data :: "'a list"

text \<open>The result of \<^verbatim>\<open>PyArray_ContiguousFromObject(op, type, 1, 1)\<close>: one dimension.\<close>

record 'a array1d =
  dims0_1d :: nat
  data_1d :: "'a list"

text \<open>
  \<^verbatim>\<open>fasttrips::PathSpecification\<close> and \<^verbatim>\<open>fasttrips::StopState\<close>, with the fields the
  source file reads and writes (the source's names end in an underscore).
\<close>

record 'd PathSpecification =
  passenger_id :: int
  path_id :: int
  hyperpath :: bool
  origin_taz_id :: int
  destination_taz_id :: int
  outbound :: bool
  preferred_time :: 'd
  trace :: bool

record 'd StopState =
  label :: 'd
  deparr_time :: 'd
  deparr_mode :: int
  stop_succpred :: int
  seq :: int
  seq_succpred :: int
  link_time :: 'd
  cost :: 'd
  arrdep_time :: 'd

subsection \<open>The collaborators\<close>

text \<open>
  The CPython and numpy calls of the file, one field per call shape:
  \<^verbatim>\<open>PyArg_ParseTuple\<close> with each of the three format strings, and
  \<^verbatim>\<open>PyArray_ContiguousFromObject\<close> with each (type, depth) the file asks for.
\<close>

record ('obj, 'd) python =
  ParseTuple_siOOOOOO :: "'obj \<Rightarrow> (string \<times> int \<times> 'obj \<times> 'obj \<times> 'obj \<times> 'obj \<times> 'obj \<times> 'obj) option"
  ParseTuple_OO :: "'obj \<Rightarrow> ('obj \<times> 'obj) option"
  ParseTuple_iiiiiidi :: "'obj \<Rightarrow> (int \<times> int \<times> int \<times> int \<times> int \<times> int \<times> 'd \<times> int) option"
  ContiguousFromObject_INT32_2 :: "'obj \<Rightarrow> int array2d option"
  ContiguousFromObject_DOUBLE_2 :: "'obj \<Rightarrow> 'd array2d option"
  ContiguousFromObject_DOUBLE_1 :: "'obj \<Rightarrow> 'd array1d option"

text \<open>
  The three methods of \<^verbatim>\<open>fasttrips::PathFinder\<close> that the file calls on the global
  \<^verbatim>\<open>pathfinder\<close>. \<open>findPath\<close> receives the two result containers by reference and
  returns them filled; \<open>'w\<close> is whatever else of the process a search can read or
  write (the trace files, the random number generator).
\<close>

record ('d, 'pf, 'w) engine =
  initializeSupply :: "string \<Rightarrow> int \<Rightarrow> int list \<Rightarrow> 'd list \<Rightarrow> int \<Rightarrow>
     int list \<Rightarrow> 'd list \<Rightarrow> int \<Rightarrow> int list \<Rightarrow> 'd list \<Rightarrow> int \<Rightarrow> 'pf \<Rightarrow> 'pf"
  setBumpWait :: "int list \<Rightarrow> 'd list \<Rightarrow> int \<Rightarrow> 'pf \<Rightarrow> 'pf"
  findPath :: "'d PathSpecification \<Rightarrow> (int \<rightharpoonup> 'd StopState) \<Rightarrow> int list \<Rightarrow> 'pf \<Rightarrow> 'w \<Rightarrow>
     (int \<rightharpoonup> 'd StopState) \<times> int list \<times> 'pf \<times> 'w"

subsection \<open>Narrowing and assertions\<close>

text \<open>
  \<^verbatim>\<open>int n = PyArray_DIMS(pyo)[0];\<close> A dimension is an \<^verbatim>\<open>npy_intp\<close>, as wide as a pointer;
  stored in a 32-bit C \<^verbatim>\<open>int\<close> it keeps its low 32 bits, read as a signed number. A
  dimension below \<open>2^31\<close> is unchanged.
\<close>

definition npy_intp_to_int :: "nat \<Rightarrow> int" where
  "npy_intp_to_int n = (int n + 2147483648) mod 4294967296 - 2147483648"

text \<open>\<^verbatim>\<open>assert(c)\<close> aborts when \<open>c\<close> is false and the build does not define \<^verbatim>\<open>NDEBUG\<close>.\<close>

definition failed_assert :: "bool \<Rightarrow> bool \<Rightarrow> bool" where
  "failed_assert NDEBUG c \<longleftrightarrow> \<not> NDEBUG \<and> \<not> c"

subsection \<open>initialize_supply\<close>

text \<open>
  \<^verbatim>\<open>_fasttrips_initialize_supply\<close>, lines 15 to 86. Each table is converted in turn; a
  failed conversion returns \<^verbatim>\<open>NULL\<close>, a failed assertion aborts. Only when all six
  tables are converted and none of the nine assertions has failed is
  \<^verbatim>\<open>pathfinder.initializeSupply\<close> called, with the row counts as narrowed, and \<^verbatim>\<open>None\<close>
  returned.
\<close>

definition fasttrips_initialize_supply ::
  "bool \<Rightarrow> ('obj, 'd) python \<Rightarrow> ('d, 'pf, 'w) engine \<Rightarrow> 'obj \<Rightarrow> 'pf \<Rightarrow> (error + unit) \<times> 'pf" where
  "fasttrips_initialize_supply NDEBUG py pathfinder args pf =
     (case ParseTuple_siOOOOOO py args of
        None \<Rightarrow> (Inl PyException, pf)
      | Some (output_dir, proc_num, input1, input2, input3, input4, input5, input6) \<Rightarrow>
     (case ContiguousFromObject_INT32_2 py input1 of
        None \<Rightarrow> (Inl PyException, pf)
      | Some pyo1 \<Rightarrow>
          let acc_indexes = data pyo1; num_indexes = npy_intp_to_int (dims0 pyo1) in
          if failed_assert NDEBUG (2 = dims1 pyo1) then (Inl AssertionFailure, pf) else
     (case ContiguousFromObject_DOUBLE_2 py input2 of
        None \<Rightarrow> (Inl PyException, pf)
      | Some pyo2 \<Rightarrow>
          let costs = data pyo2; num_costs = npy_intp_to_int (dims0 pyo2) in
          if failed_assert NDEBUG (3 = dims1 pyo2) then (Inl AssertionFailure, pf) else
          if failed_assert NDEBUG (num_indexes = num_costs) then (Inl AssertionFailure, pf) else
     (case ContiguousFromObject_INT32_2 py input3 of
        None \<Rightarrow> (Inl PyException, pf)
      | Some pyo3 \<Rightarrow>
          let stop_indexes = data pyo3; num_stop_ind = npy_intp_to_int (dims0 pyo3) in
          if failed_assert NDEBUG (3 = dims1 pyo3) then (Inl AssertionFailure, pf) else
     (case ContiguousFromObject_DOUBLE_2 py input4 of
        None \<Rightarrow> (Inl PyException, pf)
      | Some pyo4 \<Rightarrow>
          let stop_times = data pyo4; num_stop_times = npy_intp_to_int (dims0 pyo4) in
          if failed_assert NDEBUG (2 = dims1 pyo4) then (Inl AssertionFailure, pf) else
          if failed_assert NDEBUG (num_stop_ind = num_stop_times) then (Inl AssertionFailure, pf) else
     (case ContiguousFromObject_INT32_2 py input5 of
        None \<Rightarrow> (Inl PyException, pf)
      | Some pyo5 \<Rightarrow>
          let xfer_indexes = data pyo5; num_xfer_ind = npy_intp_to_int (dims0 pyo5) in
          if failed_assert NDEBUG (2 = dims1 pyo5) then (Inl AssertionFailure, pf) else
     (case ContiguousFromObject_DOUBLE_2 py input6 of
        None \<Rightarrow> (Inl PyException, pf)
      | Some pyo6 \<Rightarrow>
          let xfer_data = data pyo6; num_xfer_data = npy_intp_to_int (dims0 pyo6) in
          if failed_assert NDEBUG (2 = dims1 pyo6) then (Inl AssertionFailure, pf) else
          if failed_assert NDEBUG (num_xfer_ind = num_xfer_data) then (Inl AssertionFailure, pf) else
          (Inr (),
           initializeSupply pathfinder output_dir proc_num
             acc_indexes costs num_indexes
             stop_indexes stop_times num_stop_ind
             xfer_indexes xfer_data num_xfer_ind pf))))))))"

subsection \<open>set_bump_wait\<close>


subsection \<open>find_path\<close>

text \<open>
  \<^verbatim>\<open>PyArray_SimpleNew(2, dims, type)\<close> allocates an array whose cells are not
  initialised: a cell is \<open>None\<close> until it is written.
\<close>

definition PyArray_SimpleNew :: "nat \<Rightarrow> nat \<Rightarrow> 'a option list list" where
  "PyArray_SimpleNew d0 d1 = replicate d0 (replicate d1 None)"

text \<open>\<^verbatim>\<open>*(T*)PyArray_GETPTR2(arr, i, j) = v\<close>\<close>

definition SETPTR2 :: "'a option list list \<Rightarrow> nat \<Rightarrow> nat \<Rightarrow> 'a \<Rightarrow> 'a option list list" where
  "SETPTR2 arr i j v = arr[i := (arr ! i)[j := Some v]]"

text \<open>
  \<^verbatim>\<open>std::map::operator[]\<close>: a key that is absent is inserted with a value-initialised
  record (\<open>dflt\<close>), and that record is returned.
\<close>

definition map_subscript ::
  "'v \<Rightarrow> ('k \<rightharpoonup> 'v) \<Rightarrow> 'k \<Rightarrow> 'v \<times> ('k \<rightharpoonup> 'v)" where
  "map_subscript dflt m k =
     (case m k of Some v \<Rightarrow> (v, m) | None \<Rightarrow> (dflt, m(k \<mapsto> dflt)))"

text \<open>The body of the marshalling loop, lines 146 to 157, for one value of \<^verbatim>\<open>ind\<close>.\<close>

definition fill_row ::
  "'d StopState \<Rightarrow> int list \<Rightarrow> nat \<Rightarrow>
   (int \<rightharpoonup> 'd StopState) \<times> int option list list \<times> 'd option list list \<Rightarrow>
   (int \<rightharpoonup> 'd StopState) \<times> int option list list \<times> 'd option list list" where
  "fill_row dflt path_stops ind st =
     (case st of (path_states, ret_int, ret_double) \<Rightarrow>
      let stop_id = path_stops ! ind;
          ret_int = SETPTR2 ret_int ind 0 stop_id;
          (s, path_states) = map_subscript dflt path_states stop_id;
          ret_int = SETPTR2 ret_int ind 1 (deparr_mode s);
          (s, path_states) = map_subscript dflt path_states stop_id;
          ret_int = SETPTR2 ret_int ind 2 (stop_succpred s);
          (s, path_states) = map_subscript dflt path_states stop_id;
          ret_int = SETPTR2 ret_int ind 3 (seq s);
          (s, path_states) = map_subscript dflt path_states stop_id;
          ret_int = SETPTR2 ret_int ind 4 (seq_succpred s);
          (s, path_states) = map_subscript dflt path_states stop_id;
          ret_double = SETPTR2 ret_double ind 0 (label s);
          (s, path_states) = map_subscript dflt path_states stop_id;
          ret_double = SETPTR2 ret_double ind 1 (deparr_time s);
          (s, path_states) = map_subscript dflt path_states stop_id;
          ret_double = SETPTR2 ret_double ind 2 (link_time s);
          (s, path_states) = map_subscript dflt path_states stop_id;
          ret_double = SETPTR2 ret_double ind 3 (cost s);
          (s, path_states) = map_subscript dflt path_states stop_id;
          ret_double = SETPTR2 ret_double ind 4 (arrdep_time s)
      in (path_states, ret_int, ret_double))"

text \<open>\<^verbatim>\<open>for (int ind = 0; ind < dims_int[0]; ++ind) { ... }\<close>, entered at \<open>ind\<close>.\<close>

function fill_rows ::
  "'d StopState \<Rightarrow> int list \<Rightarrow> nat \<Rightarrow> nat \<Rightarrow>
   (int \<rightharpoonup> 'd StopState) \<times> int option list list \<times> 'd option list list \<Rightarrow>
   (int \<rightharpoonup> 'd StopState) \<times> int option list list \<times> 'd option list list" where
  "fill_rows dflt path_stops ind n st =
     (if ind < n then fill_rows dflt path_stops (Suc ind) n (fill_row dflt path_stops ind st)
      else st)"
  by pat_completeness auto
termination
  by (relation "measure (\<lambda>(dflt, path_stops, ind, n, st). n - ind)") auto

declare fill_rows.simps [simp del]

text \<open>
  \<^verbatim>\<open>_fasttrips_find_path\<close>. \<open>dflt\<close> is the value-initialised \<^verbatim>\<open>StopState\<close>. The value
  returned on success is the pair built by \<^verbatim>\<open>Py_BuildValue("(OO)", ret_int, ret_double)\<close>.
\<close>

definition fasttrips_find_path ::
  "('obj, 'd) python \<Rightarrow> ('d, 'pf, 'w) engine \<Rightarrow> 'd StopState \<Rightarrow> 'obj \<Rightarrow> 'pf \<Rightarrow> 'w \<Rightarrow>
   (error + int option list list \<times> 'd option list list) \<times> 'pf \<times> 'w" where
  "fasttrips_find_path py pathfinder dflt args pf w =
     (case ParseTuple_iiiiiidi py args of
        None \<Rightarrow> (Inl PyException, pf, w)
      | Some (p_passenger_id, p_path_id, hyperpath_i, p_origin_taz_id, p_destination_taz_id,
              outbound_i, p_preferred_time, trace_i) \<Rightarrow>
          let path_spec = \<lparr> passenger_id = p_passenger_id, path_id = p_path_id,
                            hyperpath = (hyperpath_i \<noteq> 0),
                            origin_taz_id = p_origin_taz_id,
                            destination_taz_id = p_destination_taz_id,
                            outbound = (outbound_i \<noteq> 0),
                            preferred_time = p_preferred_time,
                            trace = (trace_i \<noteq> 0) \<rparr>;
              (path_states, path_stops, pf', w') = findPath pathfinder path_spec Map.empty [] pf w;
              dims_int0 = length path_stops;
              ret_int = PyArray_SimpleNew dims_int0 5;
              dims_double0 = length path_stops;
              ret_double = PyArray_SimpleNew dims_double0 5;
              (path_states, ret_int, ret_double) =
                 fill_rows dflt path_stops 0 dims_int0 (path_states, ret_int, ret_double)
          in (Inr (ret_int, ret_double), pf', w'))"

subsection \<open>What the marshalling loop computes\<close>

text \<open>The record that \<^verbatim>\<open>path_states[stop_id]\<close> reads.\<close>

definition subscript_value :: "'v \<Rightarrow> ('k \<rightharpoonup> 'v) \<Rightarrow> 'k \<Rightarrow> 'v" where
  "subscript_value dflt m k = (case m k of Some v \<Rightarrow> v | None \<Rightarrow> dflt)"

definition int_row :: "int \<Rightarrow> 'd StopState \<Rightarrow> int option list" where
  "int_row stop_id s =
     [Some stop_id, Some (deparr_mode s), Some (stop_succpred s), Some (seq s),
      Some (seq_succpred s)]"

definition double_row :: "'d StopState \<Rightarrow> 'd option list" where
  "double_row s =
     [Some (label s), Some (deparr_time s), Some (link_time s), Some (cost s),
      Some (arrdep_time s)]"

subsection \<open>The engine's state and overlay, from the specification\<close>

text \<open>
  Modelled from the spec: the state of the class \<^verbatim>\<open>fasttrips::PathFinder\<close> (pathfinder.h
  and its implementation are not part of the sources). Section 2 of the specification:
  the engine holds a NetworkSupply and a CapacityOverlay (BumpWait), the latter a
  "mutable table of per-trip-stop markers, refreshed between search batches without
  touching NetworkSupply". Section 3, BumpedBoarding: "(trip id, sequence number,
  stop id) -> latest arrival time still eligible to board". The supply is left
  abstract (\<open>'s\<close>).
\<close>

record ('s, 'd) PathFinder =
  NetworkSupply :: 's
  CapacityOverlay :: "((int \<times> int \<times> int) \<times> 'd) list"

text \<open>
  Modelled from the spec: the member function \<^verbatim>\<open>PathFinder::setBumpWait\<close>, which is not part of the
  sources. Section 6: "Set capacity overlay: takes a bump-index table (trip, sequence,
  stop) and a matching threshold-time table of equal length; replaces the overlay
  wholesale." It receives what the source file passes: the row-major buffer of
  the index table, the buffer of the times, and the number of rows.
\<close>

definition PathFinder_setBumpWait ::
  "int list \<Rightarrow> 'd list \<Rightarrow> int \<Rightarrow> ('s, 'd) PathFinder \<Rightarrow> ('s, 'd) PathFinder" where
  "PathFinder_setBumpWait bw_index bw_times num_bw pf =
     pf \<lparr> CapacityOverlay :=
            map (\<lambda>i. ((bw_index ! (3 * i), bw_index ! (3 * i + 1), bw_index ! (3 * i + 2)),
                       bw_times ! i))
                [0..<nat num_bw] \<rparr>"

text \<open>What a search hands back to the caller: the states it recorded and the stop list.\<close>

definition search_result ::
  "(int \<rightharpoonup> 'd StopState) \<times> int list \<times> 'pf \<times> 'w \<Rightarrow> (int \<rightharpoonup> 'd StopState) \<times> int list" where
  "search_result r = (fst r, fst (snd r))"

text \<open>
  Modelled from the spec: the member function \<^verbatim>\<open>PathFinder::findPath\<close>, which is not part of the
  sources. Section 5: "each findPath call is synchronous and self-contained, sharing
  only the process-wide NetworkSupply and CapacityOverlay"; "within a process,
  NetworkSupply and CapacityOverlay are effectively read-only for the duration of a
  search". A search leaves the engine's state as it found it.
\<close>

definition findPath_read_only ::
  "('d PathSpecification \<Rightarrow> (int \<rightharpoonup> 'd StopState) \<Rightarrow> int list \<Rightarrow> 'pf \<Rightarrow> 'w \<Rightarrow>
    (int \<rightharpoonup> 'd StopState) \<times> int list \<times> 'pf \<times> 'w) \<Rightarrow> bool" where
  "findPath_read_only fp \<longleftrightarrow>
     (\<forall>path_spec path_states path_stops pf w.
        fst (snd (snd (fp path_spec path_states path_stops pf w))) = pf)"

text \<open>
  Modelled from the spec: the member function \<^verbatim>\<open>PathFinder::findPath\<close>, which is not part of the
  sources. Section 8: "Deterministic mode is pure: identical (network, overlay, query)
  inputs always produce byte-identical output sequences"; section 4.4: in deterministic
  mode the extraction is "a straight walk along the single recorded predecessor chain,
  no randomness, fully reproducible". With the hyperpath flag off, what the search
  hands back does not depend on the rest of the process \<open>w\<close>.
\<close>

definition findPath_deterministic_pure ::
  "('d PathSpecification \<Rightarrow> (int \<rightharpoonup> 'd StopState) \<Rightarrow> int list \<Rightarrow> 'pf \<Rightarrow> 'w \<Rightarrow>
    (int \<rightharpoonup> 'd StopState) \<times> int list \<times> 'pf \<times> 'w) \<Rightarrow> bool" where
  "findPath_deterministic_pure fp \<longleftrightarrow>
     (\<forall>path_spec path_states path_stops pf w1 w2.
        \<not> hyperpath path_spec \<longrightarrow>
        search_result (fp path_spec path_states path_stops pf w1) =
        search_result (fp path_spec path_states path_stops pf w2))"

text \<open>
  Modelled from the spec: the member function \<^verbatim>\<open>PathFinder::findPath\<close>, which is not part of the
  sources. Section 3: "trace flag (diagnostic verbosity, not behavior-affecting)";
  section 6: the trace "is advisory and never changes search results". What the search
  hands back is the same whatever the trace flag of the query.
\<close>

definition findPath_trace_advisory ::
  "('d PathSpecification \<Rightarrow> (int \<rightharpoonup> 'd StopState) \<Rightarrow> int list \<Rightarrow> 'pf \<Rightarrow> 'w \<Rightarrow>
    (int \<rightharpoonup> 'd StopState) \<times> int list \<times> 'pf \<times> 'w) \<Rightarrow> bool" where
  "findPath_trace_advisory fp \<longleftrightarrow>
     (\<forall>path_spec path_states path_stops pf w b.
        search_result (fp (path_spec \<lparr> trace := b \<rparr>) path_states path_stops pf w) =
        search_result (fp path_spec path_states path_stops pf w))"

subsection \<open>A concrete host and engine\<close>

text \<open>
  A small instance of the collaborators, on which the module functions can be run:
  Python values with the argument shapes the three functions parse, and an engine that
  keeps the tables it is given and answers the query from zone 1 to zone 2 with a path
  over the stops 10 and 20. Doubles are reals here.
\<close>

datatype pyobj =
    PyInt int
  | PyFloat real
  | PyStr string
  | PyTuple "pyobj list"
  | NdInt32 nat nat "int list"      \<comment> \<open>a 2-dimensional int32 array: rows, columns, cells\<close>
  | NdDouble nat nat "real list"    \<comment> \<open>a 2-dimensional float64 array\<close>
  | NdDouble1 nat "real list"       \<comment> \<open>a 1-dimensional float64 array\<close>

definition example_python :: "(pyobj, real) python" where
  "example_python =
     \<lparr> ParseTuple_siOOOOOO = (\<lambda>args. case args of
           PyTuple [PyStr s, PyInt i, o1, o2, o3, o4, o5, o6] \<Rightarrow> Some (s, i, o1, o2, o3, o4, o5, o6)
         | _ \<Rightarrow> None),
       ParseTuple_OO = (\<lambda>args. case args of PyTuple [o1, o2] \<Rightarrow> Some (o1, o2) | _ \<Rightarrow> None),
       ParseTuple_iiiiiidi = (\<lambda>args. case args of
           PyTuple [PyInt a, PyInt b, PyInt c, PyInt d, PyInt e, PyInt f, PyFloat t, PyInt g] \<Rightarrow>
             Some (a, b, c, d, e, f, t, g)
         | _ \<Rightarrow> None),
       ContiguousFromObject_INT32_2 = (\<lambda>obj. case obj of
           NdInt32 r c xs \<Rightarrow> Some \<lparr> dims0 = r, dims1 = c, data = xs \<rparr>
         | _ \<Rightarrow> None),
       ContiguousFromObject_DOUBLE_2 = (\<lambda>obj. case obj of
           NdDouble r c xs \<Rightarrow> Some \<lparr> dims0 = r, dims1 = c, data = xs \<rparr>
         | _ \<Rightarrow> None),
       ContiguousFromObject_DOUBLE_1 = (\<lambda>obj. case obj of
           NdDouble1 n xs \<Rightarrow> Some \<lparr> dims0_1d = n, data_1d = xs \<rparr>
         | _ \<Rightarrow> None) \<rparr>"

definition zero_state :: "real StopState" where
  "zero_state = \<lparr> label = 0, deparr_time = 0, deparr_mode = 0, stop_succpred = 0, seq = 0,
                  seq_succpred = 0, link_time = 0, cost = 0, arrdep_time = 0 \<rparr>"

definition state10 :: "real StopState" where
  "state10 = \<lparr> label = 26, deparr_time = 95, deparr_mode = -100, stop_succpred = 1, seq = -1,
                seq_succpred = -1, link_time = 5, cost = 1, arrdep_time = 100 \<rparr>"

definition state20 :: "real StopState" where
  "state20 = \<lparr> label = 25, deparr_time = 100, deparr_mode = 7, stop_succpred = 10, seq = 1,
                seq_succpred = 2, link_time = 20, cost = 20, arrdep_time = 120 \<rparr>"

type_synonym example_supply =
  "(string \<times> int \<times> (int list \<times> real list \<times> int) \<times> (int list \<times> real list \<times> int)
    \<times> (int list \<times> real list \<times> int)) option"

definition example_engine :: "(real, (example_supply, real) PathFinder, nat) engine" where
  "example_engine =
     \<lparr> initializeSupply =
         (\<lambda>output_dir proc_num acc_indexes costs num_indexes stop_indexes stop_times num_stop_ind
            xfer_indexes xfer_data num_xfer_ind pf.
            pf \<lparr> NetworkSupply :=
                   Some (output_dir, proc_num, (acc_indexes, costs, num_indexes),
                         (stop_indexes, stop_times, num_stop_ind),
                         (xfer_indexes, xfer_data, num_xfer_ind)) \<rparr>),
       setBumpWait = PathFinder_setBumpWait,
       findPath =
         (\<lambda>path_spec path_states path_stops pf w.
            if origin_taz_id path_spec = 1 \<and> destination_taz_id path_spec = 2
            then (path_states(10 \<mapsto> state10, 20 \<mapsto> state20), path_stops @ [10, 20],
                  pf, if trace path_spec then Suc w else w)
            else (path_states, path_stops, pf, if trace path_spec then Suc w else w)) \<rparr>"

text \<open>An engine whose search lists a stop, 30, for which it records no state.\<close>

definition forgetful_engine :: "(real, (example_supply, real) PathFinder, nat) engine" where
  "forgetful_engine =
     example_engine \<lparr> findPath :=
       (\<lambda>path_spec path_states path_stops pf w.
          (path_states(10 \<mapsto> state10), path_stops @ [10, 30], pf, w)) \<rparr>"

definition empty_pathfinder :: "(example_supply, real) PathFinder" where
  "empty_pathfinder = \<lparr> NetworkSupply = None, CapacityOverlay = [] \<rparr>"

definition query :: "int \<Rightarrow> int \<Rightarrow> int \<Rightarrow> int \<Rightarrow> int \<Rightarrow> pyobj" where
  "query hyperpath_i origin destination outbound_i trace_i =
     PyTuple [PyInt 7, PyInt 1, PyInt hyperpath_i, PyInt origin, PyInt destination,
              PyInt outbound_i, PyFloat 90, PyInt trace_i]"

text \<open>
  An engine that searches as \<open>example_engine\<close> does when it is handed empty containers,
  and returns whatever it was handed otherwise.
\<close>

definition picky_engine :: "(real, (example_supply, real) PathFinder, nat) engine" where
  "picky_engine =
     example_engine \<lparr> findPath :=
       (\<lambda>path_spec path_states path_stops pf w.
          if path_stops = [] \<and> path_states = Map.empty
          then findPath example_engine path_spec path_states path_stops pf w
          else (path_states, path_stops, pf, w)) \<rparr>"

text \<open>
  The tables of a network with one trip over two stops and no transfer; the index table
  and the cost table of the access links are the arguments.
\<close>

definition supply_args :: "pyobj \<Rightarrow> pyobj \<Rightarrow> pyobj" where
  "supply_args acc_indexes costs =
     PyTuple [PyStr ''out'', PyInt 0,
              acc_indexes, costs,
              NdInt32 2 3 [100, 1, 10, 100, 2, 20], NdDouble 2 2 [100, 100, 120, 120],
              NdInt32 0 2 [], NdDouble 0 2 []]"







definition bumped_pathfinder :: "(example_supply, real) PathFinder" where
  "bumped_pathfinder = \<lparr> NetworkSupply = None, CapacityOverlay = [((100, 1, 10), 95)] \<rparr>"

section \<open>Lemmas\<close>

lemma map_subscript_eq:
  "map_subscript dflt m k = (subscript_value dflt m k, m(k \<mapsto> subscript_value dflt m k))"
  by (auto simp: map_subscript_def subscript_value_def split: option.splits)

lemma subscript_value_upd:
  "subscript_value dflt (m(k \<mapsto> subscript_value dflt m k)) = subscript_value dflt m"
  by (rule ext) (simp add: subscript_value_def split: option.splits)

lemma subscript_value_upd_same:
  "subscript_value dflt (m(k \<mapsto> v)) k = v"
  by (simp add: subscript_value_def)

lemma fill_row_eq:
  assumes "ind < length ret_int" "ind < length ret_double"
    and "ret_int ! ind = replicate 5 None" "ret_double ! ind = replicate 5 None"
  shows "fill_row dflt path_stops ind (path_states, ret_int, ret_double) =
     (path_states(path_stops ! ind \<mapsto> subscript_value dflt path_states (path_stops ! ind)),
      ret_int[ind := int_row (path_stops ! ind) (subscript_value dflt path_states (path_stops ! ind))],
      ret_double[ind := double_row (subscript_value dflt path_states (path_stops ! ind))])"
  using assms
  by (simp add: fill_row_def SETPTR2_def map_subscript_eq subscript_value_upd_same
      int_row_def double_row_def eval_nat_numeral Let_def)

text \<open>
  The loop invariant: when the loop is entered at \<open>ind\<close>, the rows below \<open>ind\<close> are
  written, the rows from \<open>ind\<close> on are untouched, and the map differs from the one the
  search returned only by default records inserted for absent keys.
\<close>

lemma fill_rows_inv:
  assumes "ind \<le> length path_stops" and "subscript_value dflt m = f"
  shows "\<exists>m'. subscript_value dflt m' = f \<and>
     fill_rows dflt path_stops ind (length path_stops)
       (m,
        map (\<lambda>k. int_row k (f k)) (take ind path_stops)
          @ replicate (length path_stops - ind) (replicate 5 None),
        map (\<lambda>k. double_row (f k)) (take ind path_stops)
          @ replicate (length path_stops - ind) (replicate 5 None))
     = (m', map (\<lambda>k. int_row k (f k)) path_stops, map (\<lambda>k. double_row (f k)) path_stops)"
  using assms
proof (induction "length path_stops - ind" arbitrary: ind m)
  case 0
  then have "ind = length path_stops" by simp
  with 0 show ?case by (simp add: fill_rows.simps)
next
  case (Suc d)
  let ?n = "length path_stops"
  let ?k = "path_stops ! ind"
  let ?A = "map (\<lambda>k. int_row k (f k)) (take ind path_stops)"
  let ?B = "map (\<lambda>k. double_row (f k)) (take ind path_stops)"
  from Suc.hyps(2) have lt: "ind < ?n" and d: "d = ?n - Suc ind" by simp_all
  have lenA: "length ?A = ind" and lenB: "length ?B = ind" using lt by simp_all
  have rep: "replicate (?n - ind) x = x # replicate (?n - Suc ind) x" for x :: "'z"
    using lt by (cases "?n - ind") (simp_all add: Suc_diff_Suc)
  have fk: "subscript_value dflt m ?k = f ?k" using Suc.prems(2) by simp
  have step: "fill_row dflt path_stops ind
       (m, ?A @ replicate (?n - ind) (replicate 5 None), ?B @ replicate (?n - ind) (replicate 5 None))
     = (m(?k \<mapsto> f ?k),
        map (\<lambda>k. int_row k (f k)) (take (Suc ind) path_stops)
          @ replicate (?n - Suc ind) (replicate 5 None),
        map (\<lambda>k. double_row (f k)) (take (Suc ind) path_stops)
          @ replicate (?n - Suc ind) (replicate 5 None))"
  proof -
    have i1: "ind < length (?A @ replicate (?n - ind) (replicate 5 (None :: int option)))"
      and i2: "ind < length (?B @ replicate (?n - ind) (replicate 5 (None :: 'a option)))"
      using lt by simp_all
    have n1: "(?A @ replicate (?n - ind) (replicate 5 (None :: int option))) ! ind = replicate 5 None"
      using lt lenA by (simp add: nth_append)
    have n2: "(?B @ replicate (?n - ind) (replicate 5 (None :: 'a option))) ! ind = replicate 5 None"
      using lt lenB by (simp add: nth_append)
    have u1: "(?A @ replicate (?n - ind) (replicate 5 None))[ind := r]
        = (?A @ [r]) @ replicate (?n - Suc ind) (replicate 5 None)" for r
      using lenA by (subst rep) (simp add: list_update_append)
    have u2: "(?B @ replicate (?n - ind) (replicate 5 None))[ind := r]
        = (?B @ [r]) @ replicate (?n - Suc ind) (replicate 5 None)" for r
      using lenB by (subst rep) (simp add: list_update_append)
    show ?thesis
      unfolding fill_row_eq [OF i1 i2 n1 n2] fk u1 u2
      using lt by (simp add: take_Suc_conv_app_nth)
  qed
  have f': "subscript_value dflt (m(?k \<mapsto> f ?k)) = f"
    using subscript_value_upd [of dflt m ?k] Suc.prems(2) by simp
  from Suc.hyps(1) [OF d _ f'] lt
  obtain m' where "subscript_value dflt m' = f"
    and "fill_rows dflt path_stops (Suc ind) ?n
       (m(?k \<mapsto> f ?k),
        map (\<lambda>k. int_row k (f k)) (take (Suc ind) path_stops)
          @ replicate (?n - Suc ind) (replicate 5 None),
        map (\<lambda>k. double_row (f k)) (take (Suc ind) path_stops)
          @ replicate (?n - Suc ind) (replicate 5 None))
     = (m', map (\<lambda>k. int_row k (f k)) path_stops, map (\<lambda>k. double_row (f k)) path_stops)"
    by auto
  then show ?case
    using lt step by (subst fill_rows.simps) auto
qed

lemma find_path_eq:
  assumes parse: "ParseTuple_iiiiiidi py args =
      Some (p_passenger_id, p_path_id, hyperpath_i, p_origin_taz_id, p_destination_taz_id,
            outbound_i, p_preferred_time, trace_i)"
    and fp: "findPath pathfinder
        \<lparr> passenger_id = p_passenger_id, path_id = p_path_id,
          hyperpath = (hyperpath_i \<noteq> 0),
          origin_taz_id = p_origin_taz_id,
          destination_taz_id = p_destination_taz_id,
          outbound = (outbound_i \<noteq> 0),
          preferred_time = p_preferred_time,
          trace = (trace_i \<noteq> 0) \<rparr> Map.empty [] pf w
      = (path_states, path_stops, pf', w')"
  shows "fasttrips_find_path py pathfinder dflt args pf w =
     (Inr (map (\<lambda>k. int_row k (subscript_value dflt path_states k)) path_stops,
           map (\<lambda>k. double_row (subscript_value dflt path_states k)) path_stops),
      pf', w')"
proof -
  from fill_rows_inv [of 0 path_stops dflt path_states "subscript_value dflt path_states"]
  obtain m' where
    "fill_rows dflt path_stops 0 (length path_stops)
       (path_states, PyArray_SimpleNew (length path_stops) 5, PyArray_SimpleNew (length path_stops) 5)
     = (m', map (\<lambda>k. int_row k (subscript_value dflt path_states k)) path_stops,
        map (\<lambda>k. double_row (subscript_value dflt path_states k)) path_stops)"
    by (auto simp: PyArray_SimpleNew_def)
  then show ?thesis
    by (simp add: fasttrips_find_path_def parse fp)
qed



lemma find_path_outcome:
  assumes parse: "ParseTuple_iiiiiidi py args =
      Some (p_passenger_id, p_path_id, hyperpath_i, p_origin_taz_id, p_destination_taz_id,
            outbound_i, p_preferred_time, trace_i)"
  shows "fst (fasttrips_find_path py pathfinder dflt args pf w) =
     (case search_result (findPath pathfinder
        \<lparr> passenger_id = p_passenger_id, path_id = p_path_id,
          hyperpath = (hyperpath_i \<noteq> 0),
          origin_taz_id = p_origin_taz_id,
          destination_taz_id = p_destination_taz_id,
          outbound = (outbound_i \<noteq> 0),
          preferred_time = p_preferred_time,
          trace = (trace_i \<noteq> 0) \<rparr> Map.empty [] pf w) of
        (path_states, path_stops) \<Rightarrow>
          Inr (map (\<lambda>k. int_row k (subscript_value dflt path_states k)) path_stops,
               map (\<lambda>k. double_row (subscript_value dflt path_states k)) path_stops))"
proof -
  obtain path_states path_stops pf' w' where fp: "findPath pathfinder
        \<lparr> passenger_id = p_passenger_id, path_id = p_path_id,
          hyperpath = (hyperpath_i \<noteq> 0),
          origin_taz_id = p_origin_taz_id,
          destination_taz_id = p_destination_taz_id,
          outbound = (outbound_i \<noteq> 0),
          preferred_time = p_preferred_time,
          trace = (trace_i \<noteq> 0) \<rparr> Map.empty [] pf w = (path_states, path_stops, pf', w')"
    using prod_cases4 by blast
  show ?thesis
    unfolding find_path_eq [OF parse fp] fp by (simp add: search_result_def)
qed

lemma find_path_state:
  assumes parse: "ParseTuple_iiiiiidi py args =
      Some (p_passenger_id, p_path_id, hyperpath_i, p_origin_taz_id, p_destination_taz_id,
            outbound_i, p_preferred_time, trace_i)"
  shows "snd (fasttrips_find_path py pathfinder dflt args pf w) =
     snd (snd (findPath pathfinder
        \<lparr> passenger_id = p_passenger_id, path_id = p_path_id,
          hyperpath = (hyperpath_i \<noteq> 0),
          origin_taz_id = p_origin_taz_id,
          destination_taz_id = p_destination_taz_id,
          outbound = (outbound_i \<noteq> 0),
          preferred_time = p_preferred_time,
          trace = (trace_i \<noteq> 0) \<rparr> Map.empty [] pf w))"
proof -
  obtain path_states path_stops pf' w' where fp: "findPath pathfinder
        \<lparr> passenger_id = p_passenger_id, path_id = p_path_id,
          hyperpath = (hyperpath_i \<noteq> 0),
          origin_taz_id = p_origin_taz_id,
          destination_taz_id = p_destination_taz_id,
          outbound = (outbound_i \<noteq> 0),
          preferred_time = p_preferred_time,
          trace = (trace_i \<noteq> 0) \<rparr> Map.empty [] pf w = (path_states, path_stops, pf', w')"
    using prod_cases4 by blast
  show ?thesis
    unfolding find_path_eq [OF parse fp] fp by simp
qed

lemma find_path_parse_failure:
  "ParseTuple_iiiiiidi py args = None \<Longrightarrow>
   fasttrips_find_path py pathfinder dflt args pf w = (Inl PyException, pf, w)"
  by (simp add: fasttrips_find_path_def)

lemma parse_query:
  "ParseTuple_iiiiiidi example_python (query h a b ob tr) = Some (7, 1, h, a, b, ob, 90, tr)"
  by (simp add: example_python_def query_def)


lemma parse_supply_args:
  "ParseTuple_siOOOOOO example_python (supply_args acc_indexes costs) =
     Some (''out'', 0, acc_indexes, costs,
           NdInt32 2 3 [100, 1, 10, 100, 2, 20], NdDouble 2 2 [100, 100, 120, 120],
           NdInt32 0 2 [], NdDouble 0 2 [])"
  by (simp add: example_python_def supply_args_def)




lemma initialize_supply_error_keeps_state:
  "fst (fasttrips_initialize_supply NDEBUG py pathfinder args pf) = Inl err \<Longrightarrow>
   snd (fasttrips_initialize_supply NDEBUG py pathfinder args pf) = pf"
  by (auto simp: fasttrips_initialize_supply_def Let_def split: option.splits if_splits)

lemma example_engine_read_only: "findPath_read_only (findPath example_engine)"
  by (simp add: findPath_read_only_def example_engine_def)

lemma example_engine_deterministic_pure: "findPath_deterministic_pure (findPath example_engine)"
  by (simp add: findPath_deterministic_pure_def search_result_def example_engine_def)

lemma example_engine_trace_advisory: "findPath_trace_advisory (findPath example_engine)"
  by (simp add: findPath_trace_advisory_def search_result_def example_engine_def)

lemma picky_engine_fresh:
  "findPath picky_engine path_spec Map.empty [] pf w = findPath example_engine path_spec Map.empty [] pf w"
  by (simp add: picky_engine_def)

section \<open>The claims\<close>

text \<open>
  Claim C1. A find_path call whose arguments parse returns a pair of arrays, one of
  integer cells and one of numeric cells, with one row of five cells per entry of the
  stop list that the search produced, in the order of that list; the first integer cell
  of a row is the stop id. When the search finds no path, that is when it leaves the
  stop list empty, the call still succeeds and both arrays are empty.
\<close>

theorem find_path_parallel_rows:
  assumes parse: "ParseTuple_iiiiiidi py args =
      Some (p_passenger_id, p_path_id, hyperpath_i, p_origin_taz_id, p_destination_taz_id,
            outbound_i, p_preferred_time, trace_i)"
    and fp: "findPath pathfinder
        \<lparr> passenger_id = p_passenger_id, path_id = p_path_id,
          hyperpath = (hyperpath_i \<noteq> 0),
          origin_taz_id = p_origin_taz_id,
          destination_taz_id = p_destination_taz_id,
          outbound = (outbound_i \<noteq> 0),
          preferred_time = p_preferred_time,
          trace = (trace_i \<noteq> 0) \<rparr> Map.empty [] pf w
      = (path_states, path_stops, pf', w')"
  shows "\<exists>ret_int ret_double.
      fst (fasttrips_find_path py pathfinder dflt args pf w) = Inr (ret_int, ret_double)
      \<and> length ret_int = length path_stops
      \<and> length ret_double = length path_stops
      \<and> list_all (\<lambda>row. length row = 5) ret_int
      \<and> list_all (\<lambda>row. length row = 5) ret_double
      \<and> map (\<lambda>row. row ! 0) ret_int = map Some path_stops
      \<and> (path_stops = [] \<longrightarrow> ret_int = [] \<and> ret_double = [])"
  unfolding find_path_eq [OF parse fp]
  by (simp add: int_row_def double_row_def list_all_iff)

theorem find_path_parallel_rows_witness:
  "(\<exists>ret_int ret_double.
      fst (fasttrips_find_path example_python example_engine zero_state (query 0 1 2 1 0)
             empty_pathfinder 0) = Inr (ret_int, ret_double)
      \<and> length ret_int = 2 \<and> length ret_double = 2
      \<and> map (\<lambda>row. row ! 0) ret_int = [Some 10, Some 20])
   \<and> fst (fasttrips_find_path example_python example_engine zero_state (query 0 5 2 1 0)
             empty_pathfinder 0) = Inr ([], [])"
proof -
  have fp1: "findPath example_engine
        \<lparr> passenger_id = 7, path_id = 1, hyperpath = ((0::int) \<noteq> 0), origin_taz_id = 1,
          destination_taz_id = 2, outbound = ((1::int) \<noteq> 0), preferred_time = 90,
          trace = ((0::int) \<noteq> 0) \<rparr> Map.empty [] empty_pathfinder 0
      = ([10 \<mapsto> state10, 20 \<mapsto> state20], [10, 20], empty_pathfinder, 0)"
    by (simp add: example_engine_def)
  have fp2: "findPath example_engine
        \<lparr> passenger_id = 7, path_id = 1, hyperpath = ((0::int) \<noteq> 0), origin_taz_id = 5,
          destination_taz_id = 2, outbound = ((1::int) \<noteq> 0), preferred_time = 90,
          trace = ((0::int) \<noteq> 0) \<rparr> Map.empty [] empty_pathfinder 0
      = (Map.empty, [], empty_pathfinder, 0)"
    by (simp add: example_engine_def)
  show ?thesis
    using find_path_parallel_rows [OF parse_query fp1, of zero_state]
      find_path_parallel_rows [OF parse_query fp2, of zero_state]
    by auto
qed




text \<open>
  Claim C3. An initialize_supply call in which one of the six tables does not convert
  ends in an error, and the state of the engine, with the supply it held before, is
  what it was: \<^verbatim>\<open>initializeSupply\<close> is called only after the last conversion. The error
  is the pending Python exception, or the abort of an assertion on an earlier table.
  This holds in every build.
\<close>

theorem initialize_supply_atomic_on_conversion_failure:
  assumes parse: "ParseTuple_siOOOOOO py args =
      Some (output_dir, proc_num, input1, input2, input3, input4, input5, input6)"
    and failure: "ContiguousFromObject_INT32_2 py input1 = None
        \<or> ContiguousFromObject_DOUBLE_2 py input2 = None
        \<or> ContiguousFromObject_INT32_2 py input3 = None
        \<or> ContiguousFromObject_DOUBLE_2 py input4 = None
        \<or> ContiguousFromObject_INT32_2 py input5 = None
        \<or> ContiguousFromObject_DOUBLE_2 py input6 = None"
  shows "\<exists>err. fasttrips_initialize_supply NDEBUG py pathfinder args pf = (Inl err, pf)"
  using failure
  by (auto simp: fasttrips_initialize_supply_def parse Let_def split: option.splits)

theorem initialize_supply_atomic_on_conversion_failure_witness:
  "(\<exists>err. fasttrips_initialize_supply False example_python example_engine
      (supply_args (NdInt32 2 2 [1, 10, 2, 20]) (PyStr ''costs'')) bumped_pathfinder
      = (Inl err, bumped_pathfinder))
   \<and> (\<exists>err. fasttrips_initialize_supply True example_python example_engine
      (supply_args (NdInt32 2 2 [1, 10, 2, 20]) (PyStr ''costs'')) bumped_pathfinder
      = (Inl err, bumped_pathfinder))"
proof -
  have "ContiguousFromObject_DOUBLE_2 example_python (PyStr ''costs'') = None"
    by (simp add: example_python_def)
  then show ?thesis
    using
      initialize_supply_atomic_on_conversion_failure
        [OF parse_supply_args [of "NdInt32 2 2 [1, 10, 2, 20]" "PyStr ''costs''"],
        where NDEBUG = False and pathfinder = example_engine and pf = bumped_pathfinder]
      initialize_supply_atomic_on_conversion_failure
        [OF parse_supply_args [of "NdInt32 2 2 [1, 10, 2, 20]" "PyStr ''costs''"],
        where NDEBUG = True and pathfinder = example_engine and pf = bumped_pathfinder]
    by simp
qed




text \<open>
  Claim C5. In the result of a find_path call, row \<open>i\<close> carries the state that the search
  recorded for the \<open>i\<close>-th stop of the path: the integer row is the stop id, the link mode
  (\<open>deparr_mode\<close>), the neighbouring stop (\<open>stop_succpred\<close>), the stop's own sequence number
  (\<open>seq\<close>) and the neighbour's (\<open>seq_succpred\<close>); the numeric row is the label, the
  arrival-or-departure time (\<open>deparr_time\<close>), the link time, the cost, and the time at
  the other end (\<open>arrdep_time\<close>), all read from the record stored under that stop id.
\<close>

theorem find_path_row_fields:
  assumes parse: "ParseTuple_iiiiiidi py args =
      Some (p_passenger_id, p_path_id, hyperpath_i, p_origin_taz_id, p_destination_taz_id,
            outbound_i, p_preferred_time, trace_i)"
    and fp: "findPath pathfinder
        \<lparr> passenger_id = p_passenger_id, path_id = p_path_id,
          hyperpath = (hyperpath_i \<noteq> 0),
          origin_taz_id = p_origin_taz_id,
          destination_taz_id = p_destination_taz_id,
          outbound = (outbound_i \<noteq> 0),
          preferred_time = p_preferred_time,
          trace = (trace_i \<noteq> 0) \<rparr> Map.empty [] pf w
      = (path_states, path_stops, pf', w')"
    and i: "i < length path_stops"
    and s: "path_states (path_stops ! i) = Some s"
  shows "\<exists>ret_int ret_double.
      fst (fasttrips_find_path py pathfinder dflt args pf w) = Inr (ret_int, ret_double)
      \<and> ret_int ! i = [Some (path_stops ! i), Some (deparr_mode s), Some (stop_succpred s),
                        Some (seq s), Some (seq_succpred s)]
      \<and> ret_double ! i = [Some (label s), Some (deparr_time s), Some (link_time s),
                           Some (cost s), Some (arrdep_time s)]"
  unfolding find_path_eq [OF parse fp]
  using i s by (simp add: int_row_def double_row_def subscript_value_def)

theorem find_path_row_fields_witness:
  "\<exists>ret_int ret_double.
      fst (fasttrips_find_path example_python example_engine zero_state (query 0 1 2 1 0)
             empty_pathfinder 0) = Inr (ret_int, ret_double)
      \<and> ret_int ! 1 = [Some 20, Some 7, Some 10, Some 1, Some 2]
      \<and> ret_double ! 1 = [Some 25, Some 100, Some 20, Some 20, Some 120]"
proof -
  have fp: "findPath example_engine
        \<lparr> passenger_id = 7, path_id = 1, hyperpath = ((0::int) \<noteq> 0), origin_taz_id = 1,
          destination_taz_id = 2, outbound = ((1::int) \<noteq> 0), preferred_time = 90,
          trace = ((0::int) \<noteq> 0) \<rparr> Map.empty [] empty_pathfinder 0
      = ([10 \<mapsto> state10, 20 \<mapsto> state20], [10, 20], empty_pathfinder, 0)"
    by (simp add: example_engine_def)
  have i: "1 < length [10, 20 :: int]" by simp
  have s: "[10 \<mapsto> state10, 20 \<mapsto> state20] ([10, 20 :: int] ! 1) = Some state20" by simp
  show ?thesis
    using find_path_row_fields [OF parse_query fp i s, of zero_state]
    by (simp add: state20_def)
qed

text \<open>
  Claim C6. With a search that is pure in deterministic mode, as the specification
  requires: two find_path calls on engines with the same network supply and the same
  capacity overlay, with the same query and the hyperpath flag off, return the same two
  arrays, whatever the rest of the process looks like at each call. Every cell of both
  arrays has been written, so no uninitialised memory reaches the output.
\<close>

theorem find_path_deterministic_mode_pure:
  fixes pf1 pf2 :: "('s, 'd) PathFinder"
  assumes det: "findPath_deterministic_pure (findPath pathfinder)"
    and p1: "ParseTuple_iiiiiidi py args1 =
      Some (p_passenger_id, p_path_id, 0, p_origin_taz_id, p_destination_taz_id,
            outbound_i, p_preferred_time, trace_i)"
    and p2: "ParseTuple_iiiiiidi py args2 =
      Some (p_passenger_id, p_path_id, 0, p_origin_taz_id, p_destination_taz_id,
            outbound_i, p_preferred_time, trace_i)"
    and same_supply: "NetworkSupply pf1 = NetworkSupply pf2"
    and same_overlay: "CapacityOverlay pf1 = CapacityOverlay pf2"
  shows "\<exists>ret_int ret_double.
      fst (fasttrips_find_path py pathfinder dflt args1 pf1 w1) = Inr (ret_int, ret_double)
      \<and> fst (fasttrips_find_path py pathfinder dflt args2 pf2 w2) = Inr (ret_int, ret_double)
      \<and> list_all (list_all (\<lambda>cell. cell \<noteq> None)) ret_int
      \<and> list_all (list_all (\<lambda>cell. cell \<noteq> None)) ret_double"
proof -
  have pf: "pf1 = pf2" using same_supply same_overlay by simp
  let ?spec = "\<lparr> passenger_id = p_passenger_id, path_id = p_path_id,
          hyperpath = ((0::int) \<noteq> 0),
          origin_taz_id = p_origin_taz_id,
          destination_taz_id = p_destination_taz_id,
          outbound = (outbound_i \<noteq> 0),
          preferred_time = p_preferred_time,
          trace = (trace_i \<noteq> 0) \<rparr>"
  have "\<not> hyperpath ?spec" by simp
  with det have "search_result (findPath pathfinder ?spec Map.empty [] pf2 w1) =
      search_result (findPath pathfinder ?spec Map.empty [] pf2 w2)"
    unfolding findPath_deterministic_pure_def by blast
  then show ?thesis
    unfolding find_path_outcome [OF p1] find_path_outcome [OF p2] pf
    by (simp add: list_all_iff int_row_def double_row_def split: prod.split)
qed

theorem find_path_deterministic_mode_pure_witness:
  "\<exists>ret_int ret_double.
      fst (fasttrips_find_path example_python example_engine zero_state (query 0 1 2 1 1)
            empty_pathfinder 0) = Inr (ret_int, ret_double)
      \<and> fst (fasttrips_find_path example_python example_engine zero_state (query 0 1 2 1 1)
            empty_pathfinder 4) = Inr (ret_int, ret_double)
      \<and> list_all (list_all (\<lambda>cell. cell \<noteq> None)) ret_int
      \<and> list_all (list_all (\<lambda>cell. cell \<noteq> None)) ret_double"
  using find_path_deterministic_mode_pure [OF example_engine_deterministic_pure
      parse_query [of 0 1 2 1 1] parse_query [of 0 1 2 1 1],
      where ?pf1.0 = empty_pathfinder and ?pf2.0 = empty_pathfinder and dflt = zero_state
        and ?w1.0 = 0 and ?w2.0 = 4]
  by simp

text \<open>
  Claim C7. With a search for which the trace flag is advisory, as the specification
  requires: two find_path calls that differ only in the trace argument return the same
  integer array and the same numeric array, every cell of which has been written.
\<close>

theorem find_path_trace_noninterfering:
  assumes advisory: "findPath_trace_advisory (findPath pathfinder)"
    and p1: "ParseTuple_iiiiiidi py args1 =
      Some (p_passenger_id, p_path_id, hyperpath_i, p_origin_taz_id, p_destination_taz_id,
            outbound_i, p_preferred_time, trace_i1)"
    and p2: "ParseTuple_iiiiiidi py args2 =
      Some (p_passenger_id, p_path_id, hyperpath_i, p_origin_taz_id, p_destination_taz_id,
            outbound_i, p_preferred_time, trace_i2)"
  shows "\<exists>ret_int ret_double.
      fst (fasttrips_find_path py pathfinder dflt args1 pf w) = Inr (ret_int, ret_double)
      \<and> fst (fasttrips_find_path py pathfinder dflt args2 pf w) = Inr (ret_int, ret_double)
      \<and> list_all (list_all (\<lambda>cell. cell \<noteq> None)) ret_int
      \<and> list_all (list_all (\<lambda>cell. cell \<noteq> None)) ret_double"
proof -
  let ?spec = "\<lambda>trace_i. \<lparr> passenger_id = p_passenger_id, path_id = p_path_id,
          hyperpath = (hyperpath_i \<noteq> 0),
          origin_taz_id = p_origin_taz_id,
          destination_taz_id = p_destination_taz_id,
          outbound = (outbound_i \<noteq> 0),
          preferred_time = p_preferred_time,
          trace = (trace_i \<noteq> (0::int)) \<rparr>"
  have "?spec trace_i1 = (?spec trace_i2) \<lparr> trace := (trace_i1 \<noteq> 0) \<rparr>" by simp
  with advisory have "search_result (findPath pathfinder (?spec trace_i1) Map.empty [] pf w) =
      search_result (findPath pathfinder (?spec trace_i2) Map.empty [] pf w)"
    unfolding findPath_trace_advisory_def by metis
  then show ?thesis
    unfolding find_path_outcome [OF p1] find_path_outcome [OF p2]
    by (simp add: list_all_iff int_row_def double_row_def split: prod.split)
qed

theorem find_path_trace_noninterfering_witness:
  "\<exists>ret_int ret_double.
      fst (fasttrips_find_path example_python example_engine zero_state (query 0 1 2 1 0)
            empty_pathfinder 0) = Inr (ret_int, ret_double)
      \<and> fst (fasttrips_find_path example_python example_engine zero_state (query 0 1 2 1 1)
            empty_pathfinder 0) = Inr (ret_int, ret_double)
      \<and> list_all (list_all (\<lambda>cell. cell \<noteq> None)) ret_int
      \<and> list_all (list_all (\<lambda>cell. cell \<noteq> None)) ret_double"
  using find_path_trace_noninterfering [OF example_engine_trace_advisory
      parse_query [of 0 1 2 1 0] parse_query [of 0 1 2 1 1],
      where dflt = zero_state and pf = empty_pathfinder and w = 0]
  by simp

text \<open>
  Claim C8. With a search that only reads the engine's state, as the specification
  requires: a find_path call leaves the global engine (network supply and capacity
  overlay) as it was, so a later query is answered as if the earlier one had not run;
  and the call hands empty containers to the search, so its outcome depends on the
  search only through what the search does when started on an empty map of states and
  an empty stop list. The containers are locals of the call and are not part of the
  state it leaves behind.
\<close>

theorem find_path_self_contained:
  assumes read_only: "findPath_read_only (findPath pathfinder)"
  shows "fst (snd (fasttrips_find_path py pathfinder dflt args pf w)) = pf
       \<and> fasttrips_find_path py pathfinder dflt args'
            (fst (snd (fasttrips_find_path py pathfinder dflt args pf w))) w'
         = fasttrips_find_path py pathfinder dflt args' pf w'
       \<and> ((\<forall>path_spec. findPath other path_spec Map.empty [] pf w
                        = findPath pathfinder path_spec Map.empty [] pf w)
           \<longrightarrow> fasttrips_find_path py other dflt args pf w
               = fasttrips_find_path py pathfinder dflt args pf w)"
proof -
  have unchanged: "fst (snd (fasttrips_find_path py pathfinder dflt args pf w)) = pf"
  proof (cases "ParseTuple_iiiiiidi py args")
    case None
    then show ?thesis by (simp add: find_path_parse_failure)
  next
    case (Some t)
    obtain a b c d e f g h where "t = (a, b, c, d, e, f, g, h)"
      by (metis prod_cases4)
    with Some have parse: "ParseTuple_iiiiiidi py args = Some (a, b, c, d, e, f, g, h)" by simp
    show ?thesis
      using read_only find_path_state [OF parse, of pathfinder dflt pf w]
      by (simp add: findPath_read_only_def)
  qed
  have fresh: "fasttrips_find_path py other dflt args pf w
               = fasttrips_find_path py pathfinder dflt args pf w"
    if "\<forall>path_spec. findPath other path_spec Map.empty [] pf w
                        = findPath pathfinder path_spec Map.empty [] pf w"
    using that by (simp add: fasttrips_find_path_def split: option.split)
  from unchanged fresh show ?thesis by simp
qed

theorem find_path_self_contained_witness:
  "fst (snd (fasttrips_find_path example_python example_engine zero_state (query 0 1 2 1 1)
               bumped_pathfinder 0)) = bumped_pathfinder
   \<and> fasttrips_find_path example_python example_engine zero_state (query 0 5 2 1 0)
        (fst (snd (fasttrips_find_path example_python example_engine zero_state (query 0 1 2 1 1)
               bumped_pathfinder 0))) 1
     = fasttrips_find_path example_python example_engine zero_state (query 0 5 2 1 0)
        bumped_pathfinder 1
   \<and> fasttrips_find_path example_python picky_engine zero_state (query 0 1 2 1 1)
        bumped_pathfinder 0
     = fasttrips_find_path example_python example_engine zero_state (query 0 1 2 1 1)
        bumped_pathfinder 0"
  using find_path_self_contained [OF example_engine_read_only,
      where py = example_python and dflt = zero_state and args = "query 0 1 2 1 1"
        and args' = "query 0 5 2 1 0" and pf = bumped_pathfinder and w = 0 and w' = 1
        and other = picky_engine]
  by (simp add: picky_engine_fresh)

text \<open>
  Claim C9. The hyperpath, outbound and trace arguments of find_path are integers of
  which only the test against zero is used: two calls whose arguments agree except that
  a flag is nonzero in both, with different values, give the same outcome, arrays and
  state alike.
\<close>

theorem find_path_flags_nonzero_test:
  assumes p1: "ParseTuple_iiiiiidi py args1 =
      Some (p_passenger_id, p_path_id, hyperpath_i1, p_origin_taz_id, p_destination_taz_id,
            outbound_i1, p_preferred_time, trace_i1)"
    and p2: "ParseTuple_iiiiiidi py args2 =
      Some (p_passenger_id, p_path_id, hyperpath_i2, p_origin_taz_id, p_destination_taz_id,
            outbound_i2, p_preferred_time, trace_i2)"
    and h: "hyperpath_i1 = hyperpath_i2 \<or> (hyperpath_i1 \<noteq> 0 \<and> hyperpath_i2 \<noteq> 0)"
    and ob: "outbound_i1 = outbound_i2 \<or> (outbound_i1 \<noteq> 0 \<and> outbound_i2 \<noteq> 0)"
    and tr: "trace_i1 = trace_i2 \<or> (trace_i1 \<noteq> 0 \<and> trace_i2 \<noteq> 0)"
  shows "fasttrips_find_path py pathfinder dflt args1 pf w =
         fasttrips_find_path py pathfinder dflt args2 pf w"
proof -
  from h have "(hyperpath_i1 \<noteq> 0) = (hyperpath_i2 \<noteq> 0)" by auto
  moreover from ob have "(outbound_i1 \<noteq> 0) = (outbound_i2 \<noteq> 0)" by auto
  moreover from tr have "(trace_i1 \<noteq> 0) = (trace_i2 \<noteq> 0)" by auto
  ultimately show ?thesis
    by (simp add: fasttrips_find_path_def p1 p2)
qed

theorem find_path_flags_nonzero_test_witness:
  "fasttrips_find_path example_python example_engine zero_state (query 1 1 2 1 1) empty_pathfinder 0
   = fasttrips_find_path example_python example_engine zero_state (query 2 1 2 (-1) 5) empty_pathfinder 0"
  using find_path_flags_nonzero_test [OF parse_query parse_query,
      where ?hyperpath_i1.0 = 1 and ?hyperpath_i2.0 = 2 and ?outbound_i1.0 = 1 and ?outbound_i2.0 = "-1"
        and ?trace_i1.0 = 1 and ?trace_i2.0 = 5]
  by simp

text \<open>
  Claim C10. The rows are read with \<^verbatim>\<open>path_states[stop_id]\<close>, which never fails: for a
  stop id that is in the stop list and has no entry in the map of states, the call still
  succeeds, and the row holds the stop id followed by the fields of a value-initialised
  \<^verbatim>\<open>StopState\<close>. The rows are the recorded states only if the search records a state
  for every stop it lists.
\<close>

theorem find_path_absent_state_default:
  assumes parse: "ParseTuple_iiiiiidi py args =
      Some (p_passenger_id, p_path_id, hyperpath_i, p_origin_taz_id, p_destination_taz_id,
            outbound_i, p_preferred_time, trace_i)"
    and fp: "findPath pathfinder
        \<lparr> passenger_id = p_passenger_id, path_id = p_path_id,
          hyperpath = (hyperpath_i \<noteq> 0),
          origin_taz_id = p_origin_taz_id,
          destination_taz_id = p_destination_taz_id,
          outbound = (outbound_i \<noteq> 0),
          preferred_time = p_preferred_time,
          trace = (trace_i \<noteq> 0) \<rparr> Map.empty [] pf w
      = (path_states, path_stops, pf', w')"
    and i: "i < length path_stops"
    and absent: "path_states (path_stops ! i) = None"
  shows "\<exists>ret_int ret_double.
      fst (fasttrips_find_path py pathfinder dflt args pf w) = Inr (ret_int, ret_double)
      \<and> ret_int ! i = [Some (path_stops ! i), Some (deparr_mode dflt), Some (stop_succpred dflt),
                        Some (seq dflt), Some (seq_succpred dflt)]
      \<and> ret_double ! i = [Some (label dflt), Some (deparr_time dflt), Some (link_time dflt),
                           Some (cost dflt), Some (arrdep_time dflt)]"
  unfolding find_path_eq [OF parse fp]
  using i absent by (simp add: int_row_def double_row_def subscript_value_def)

theorem find_path_absent_state_default_witness:
  "\<exists>ret_int ret_double.
      fst (fasttrips_find_path example_python forgetful_engine zero_state (query 0 1 2 1 0)
             empty_pathfinder 0) = Inr (ret_int, ret_double)
      \<and> ret_int ! 1 = [Some 30, Some 0, Some 0, Some 0, Some 0]
      \<and> ret_double ! 1 = [Some 0, Some 0, Some 0, Some 0, Some 0]"
proof -
  have fp: "findPath forgetful_engine
        \<lparr> passenger_id = 7, path_id = 1, hyperpath = ((0::int) \<noteq> 0), origin_taz_id = 1,
          destination_taz_id = 2, outbound = ((1::int) \<noteq> 0), preferred_time = 90,
          trace = ((0::int) \<noteq> 0) \<rparr> Map.empty [] empty_pathfinder 0
      = ([10 \<mapsto> state10], [10, 30], empty_pathfinder, 0)"
    by (simp add: forgetful_engine_def)
  have i: "1 < length [10, 30 :: int]" by simp
  have absent: "[10 \<mapsto> state10] ([10, 30 :: int] ! 1) = None" by simp
  show ?thesis
    using find_path_absent_state_default [OF parse_query fp i absent, of zero_state]
    by (simp add: zero_state_def)
qed

end
